theory Spec2Isabelle
  imports Complex_Main "HOL-Library.Log_Nat" "HOL-Library.AList"
begin

section \<open>Python strings\<close>

text \<open>
  A Python \<open>str\<close> is a sequence of Unicode code points, and \<open>len\<close> counts code points,
  so a string is modelled as a list of code points. \<open>py\<close> turns an ASCII literal into
  such a list.
\<close>

type_synonym pystr = "nat list"

definition py :: "string \<Rightarrow> pystr" where
  "py cs = map of_char cs"

definition is_space :: "nat \<Rightarrow> bool" where
  \<comment> \<open>the code points for which \<open>str.isspace\<close> holds; also the class \<open>\s\<close> of \<open>re\<close>\<close>
  "is_space c \<longleftrightarrow>
     (9 \<le> c \<and> c \<le> 13) \<or> (28 \<le> c \<and> c \<le> 32) \<or> c = 133 \<or> c = 160 \<or> c = 5760 \<or>
     (8192 \<le> c \<and> c \<le> 8202) \<or> c = 8232 \<or> c = 8233 \<or> c = 8239 \<or> c = 8287 \<or> c = 12288"

definition lower_cp :: "nat \<Rightarrow> nat" where
  "lower_cp c = (if 65 \<le> c \<and> c \<le> 90 then c + 32 else c)"

definition upper_cp :: "nat \<Rightarrow> nat" where
  "upper_cp c = (if 97 \<le> c \<and> c \<le> 122 then c - 32 else c)"

text \<open>
  \<open>str.lower\<close> and \<open>str.upper\<close> follow the case tables of Unicode, which are not part of
  the program: a letter outside ASCII can change to several code points (\<open>lower\<close> turns
  U+0130 into two, \<open>upper\<close> turns U+00DF into \<open>SS\<close>), and the lower case of a sigma
  depends on its place in the word. On a string of ASCII characters they change the ASCII
  letters and nothing else. On every other string they are a parameter of the model, the
  record \<open>U\<close>: every definition that changes case takes it as its first argument, and a
  theorem with a free \<open>U\<close> holds whatever the tables are.
\<close>

record unicode =
  lower_of :: "pystr \<Rightarrow> pystr"
  upper_of :: "pystr \<Rightarrow> pystr"

definition ascii :: "pystr \<Rightarrow> bool" where
  "ascii s = list_all (\<lambda>c. c < 128) s"

definition lower :: "unicode \<Rightarrow> pystr \<Rightarrow> pystr" where
  \<comment> \<open>\<open>s.lower()\<close>\<close>
  "lower U s = (if ascii s then map lower_cp s else lower_of U s)"

definition upper :: "unicode \<Rightarrow> pystr \<Rightarrow> pystr" where
  \<comment> \<open>\<open>s.upper()\<close>\<close>
  "upper U s = (if ascii s then map upper_cp s else upper_of U s)"

definition example_unicode :: unicode where
  \<comment> \<open>tables for the examples only: U+0130 is lowered to \<open>i\<close> and U+0307, and U+212A to
      \<open>k\<close>, as Python lowers them. The examples lower no other code point outside ASCII
      and upper-case ASCII texts only, so nothing else of these tables is ever used\<close>
  "example_unicode =
     \<lparr>lower_of = (\<lambda>s. concat (map (\<lambda>c. if c = 304 then [105, 775]
                                         else if c = 8490 then [107] else [lower_cp c]) s)),
      upper_of = map upper_cp\<rparr>"

definition strip :: "pystr \<Rightarrow> pystr" where
  \<comment> \<open>\<open>s.strip()\<close>\<close>
  "strip s = rev (dropWhile is_space (rev (dropWhile is_space s)))"

fun split_on :: "nat \<Rightarrow> pystr \<Rightarrow> pystr list" where
  \<comment> \<open>\<open>s.split(sep)\<close> for a separator of one code point\<close>
  "split_on sep [] = [[]]"
| "split_on sep (c # cs) =
     (let r = split_on sep cs
      in if c = sep then [] # r else (c # hd r) # tl r)"

fun split_ws_from :: "pystr \<Rightarrow> pystr \<Rightarrow> pystr list" where
  \<comment> \<open>the first argument is the word being read, reversed\<close>
  "split_ws_from cur [] = (if cur = [] then [] else [rev cur])"
| "split_ws_from cur (c # cs) =
     (if is_space c
      then (if cur = [] then split_ws_from [] cs else rev cur # split_ws_from [] cs)
      else split_ws_from (c # cur) cs)"

definition split_ws :: "pystr \<Rightarrow> pystr list" where
  \<comment> \<open>\<open>s.split()\<close>\<close>
  "split_ws s = split_ws_from [] s"

definition startswith :: "pystr \<Rightarrow> pystr \<Rightarrow> bool" where
  \<comment> \<open>\<open>s.startswith(p)\<close>\<close>
  "startswith s p \<longleftrightarrow> take (length p) s = p"

definition endswith :: "pystr \<Rightarrow> pystr \<Rightarrow> bool" where
  \<comment> \<open>\<open>s.endswith(p)\<close>\<close>
  "endswith s p \<longleftrightarrow> startswith (rev s) (rev p)"

fun contains :: "pystr \<Rightarrow> pystr \<Rightarrow> bool" where
  \<comment> \<open>\<open>p in s\<close>, with the needle first\<close>
  "contains p [] = (p = [])"
| "contains p (c # cs) = (startswith (c # cs) p \<or> contains p cs)"

fun digits :: "nat \<Rightarrow> pystr" where
  "digits n = (if n < 10 then [48 + n] else digits (n div 10) @ [48 + n mod 10])"

declare digits.simps [simp del]

section \<open>JSON values\<close>

text \<open>
  The values a submission or a stored question field can hold: \<open>null\<close> (also what
  \<open>dict.get\<close> returns for a missing key), a boolean, an integer or a string.
\<close>

datatype jval = JNull | JBool bool | JInt int | JStr pystr

fun py_str :: "jval \<Rightarrow> pystr" where
  \<comment> \<open>\<open>str(v)\<close>\<close>
  "py_str JNull = py ''None''"
| "py_str (JBool b) = (if b then py ''True'' else py ''False'')"
| "py_str (JInt i) = (if i < 0 then 45 # digits (nat (- i)) else digits (nat i))"
| "py_str (JStr s) = s"

fun truthy :: "jval \<Rightarrow> bool" where
  \<comment> \<open>the truth value of \<open>v\<close> in a condition\<close>
  "truthy JNull = False"
| "truthy (JBool b) = b"
| "truthy (JInt i) = (i \<noteq> 0)"
| "truthy (JStr s) = (s \<noteq> [])"

fun py_eq :: "jval \<Rightarrow> jval \<Rightarrow> bool" where
  \<comment> \<open>\<open>a == b\<close>; a boolean equals the integer 0 or 1 it stands for\<close>
  "py_eq JNull JNull = True"
| "py_eq (JBool a) (JBool b) = (a = b)"
| "py_eq (JBool a) (JInt i) = (i = (if a then 1 else 0))"
| "py_eq (JInt i) (JBool a) = (i = (if a then 1 else 0))"
| "py_eq (JInt i) (JInt j) = (i = j)"
| "py_eq (JStr s) (JStr t) = (s = t)"
| "py_eq _ _ = False"

fun isinstance_bool :: "jval \<Rightarrow> bool" where
  "isinstance_bool (JBool b) = True"
| "isinstance_bool _ = False"

section \<open>Floating point\<close>

text \<open>
  A Python \<open>float\<close> is an IEEE binary64 number. Each arithmetic operation returns the
  exact result rounded to the nearest number with a 53 bit significand, ties to the even
  significand. The model works on rationals; the exponent range is not bounded, as no
  value of the program comes near the overflow or the subnormal range.
\<close>

definition ilog2 :: "rat \<Rightarrow> int" where
  \<comment> \<open>the exponent \<open>e\<close> with \<open>2 powi e \<le> x < 2 powi (e + 1)\<close>, for \<open>0 < x\<close>\<close>
  "ilog2 x = (if 1 \<le> x then bitlen \<lfloor>x\<rfloor> - 1 else - bitlen (\<lceil>1 / x\<rceil> - 1))"

definition round_half_even :: "rat \<Rightarrow> int" where
  \<comment> \<open>\<open>round(x)\<close> of Python 3: the nearest integer, a tie goes to the even one\<close>
  "round_half_even x =
     (let f = \<lfloor>x\<rfloor>; d = x - of_int f
      in if d < 1 / 2 then f else if 1 / 2 < d then f + 1 else if even f then f else f + 1)"

definition fl :: "rat \<Rightarrow> rat" where
  "fl x = (if x = 0 then 0
           else let u = 2 powi (ilog2 \<bar>x\<bar> - 52)
                in sgn x * of_int (round_half_even (\<bar>x\<bar> / u)) * u)"

definition float_mul :: "rat \<Rightarrow> rat \<Rightarrow> rat" where
  "float_mul a b = fl (a * b)"

definition float_div :: "rat \<Rightarrow> rat \<Rightarrow> rat" where
  "float_div a b = fl (a / b)"

definition float_of_nat :: "nat \<Rightarrow> rat" where
  "float_of_nat n = fl (of_nat n)"

section \<open>Questions and grading\<close>

datatype qtype = true_false | multiple_choice | short_answer | other_type

text \<open>
  A question is a dictionary; the grading code reads \<open>type\<close> by index and every other
  field with \<open>get\<close>, so a field that is missing reads as \<open>JNull\<close>. \<open>key_points\<close> is
  read with the default \<open>''\<close>: \<open>None\<close> stands for the missing key.
\<close>

record question =
  qtype :: qtype
  question_text :: pystr
  options :: "(pystr \<times> pystr) list"
  correct_answer :: jval
  sample_answer :: jval
  key_points :: "pystr option"
  explanation :: jval

definition separators :: "nat list" where
  \<comment> \<open>\<open>[',', ';', '\<bullet>', '-']\<close>, the bullet being U+2022\<close>
  "separators = [44, 59, 8226, 45]"

definition split_key_points :: "pystr \<Rightarrow> pystr list" where
  "split_key_points kp =
     (if kp \<noteq> [] then
        (case find (\<lambda>separator. separator \<in> set kp) separators of
           None \<Rightarrow> []
         | Some separator \<Rightarrow> map strip (filter (\<lambda>p. strip p \<noteq> []) (split_on separator kp)))
      else [])"

definition key_point_list :: "question \<Rightarrow> pystr list" where
  "key_point_list q =
     filter (\<lambda>p. length p > 3)
       (split_key_points (case key_points q of None \<Rightarrow> [] | Some kp \<Rightarrow> kp))"

definition has_key_points :: "unicode \<Rightarrow> pystr list \<Rightarrow> pystr \<Rightarrow> bool" where
  "has_key_points U kpl user_lower =
     (if kpl \<noteq> [] then
        (let matches = length (filter (\<lambda>point. contains (lower U point) user_lower) kpl)
         in of_nat matches \<ge> float_mul (float_of_nat (length kpl)) (fl (3 / 10)))
      else False)"

definition word_overlap :: "pystr \<Rightarrow> pystr \<Rightarrow> bool" where
  "word_overlap correct_lower user_lower =
     (let sample_words = set (split_ws correct_lower);
          user_words = set (split_ws user_lower);
          overlap = card (sample_words \<inter> user_words)
      in of_nat overlap \<ge> float_mul (float_of_nat (card sample_words)) (fl (1 / 5)))"

definition grade_short_answer :: "unicode \<Rightarrow> question \<Rightarrow> jval \<Rightarrow> bool" where
  "grade_short_answer U q user_ans =
     (let expected = sample_answer q
      in if truthy user_ans \<and> truthy expected then
           (let user_lower = strip (lower U (py_str user_ans));
                correct_lower = strip (lower U (py_str expected))
            in if length user_lower < 10 then False
               else word_overlap correct_lower user_lower \<or>
                    has_key_points U (key_point_list q) user_lower)
         else False)"

definition grade_true_false :: "unicode \<Rightarrow> question \<Rightarrow> jval \<Rightarrow> bool" where
  "grade_true_false U q user_ans =
     (let expected = correct_answer q
      in if isinstance_bool user_ans then py_eq user_ans expected
         else lower U (py_str user_ans) = lower U (py_str expected))"

definition grade_multiple_choice :: "unicode \<Rightarrow> question \<Rightarrow> jval \<Rightarrow> bool" where
  "grade_multiple_choice U q user_ans =
     (upper U (py_str user_ans) = upper U (py_str (correct_answer q)))"

definition is_correct :: "unicode \<Rightarrow> question \<Rightarrow> jval \<Rightarrow> bool" where
  "is_correct U q user_ans =
     (if qtype q = true_false then grade_true_false U q user_ans
      else if qtype q = multiple_choice then grade_multiple_choice U q user_ans
      else if qtype q = short_answer then grade_short_answer U q user_ans
      else False)"

definition percentage_of :: "nat \<Rightarrow> nat \<Rightarrow> int" where
  \<comment> \<open>\<open>round((correct_count / total) * 100) if total > 0 else 0\<close>\<close>
  "percentage_of correct_count n =
     (if n > 0
      then round_half_even (float_mul (float_div (of_nat correct_count) (of_nat n)) 100)
      else 0)"

section \<open>Exam records, submission and reset\<close>

record attempt =
  timestamp :: pystr
  score :: nat
  total :: nat
  percentage :: int

text \<open>
  The persisted exam record. \<open>attempts\<close>, \<open>best_score\<close>, \<open>attempt_count\<close> and
  \<open>last_attempt\<close> are missing in a record that was never submitted (\<open>None\<close>;
  for \<open>best_score\<close> and \<open>last_attempt\<close> also the stored \<open>null\<close>). Every other key of
  the dictionary is in the extension part of the record.
\<close>

record exam =
  exam_id :: pystr
  title :: pystr
  course :: pystr
  exam_type :: pystr
  questions :: "question list"
  created_at :: pystr
  attempts :: "attempt list option"
  best_score :: "int option"
  attempt_count :: "nat option"
  last_attempt :: "pystr option"

record result =
  question_index :: nat
  correct :: bool
  user_answer :: jval
  result_correct_answer :: jval
  result_explanation :: jval
  result_key_points :: "pystr option"

record response =
  response_score :: nat
  response_total :: nat
  response_percentage :: int
  results :: "result list"
  response_best_score :: int
  attempt_number :: nat
  improved :: bool

datatype http_error = NotFound | ServerError

type_synonym 'a store = "pystr \<rightharpoonup> 'a exam_scheme"

definition json_name :: "pystr \<Rightarrow> pystr" where
  "json_name name =
     (if \<not> endswith name (py ''.json'') then name @ py ''.json'' else name)"

fun grade_from :: "unicode \<Rightarrow> nat \<Rightarrow> question list \<Rightarrow> (pystr \<rightharpoonup> jval) \<Rightarrow> result list" where
  \<comment> \<open>the loop over \<open>enumerate(questions)\<close>, from index \<open>idx\<close> on\<close>
  "grade_from U idx [] user_answers = []"
| "grade_from U idx (q # qs) user_answers =
     (let user_ans = (case user_answers (digits idx) of None \<Rightarrow> JNull | Some v \<Rightarrow> v);
          expected = (if qtype q = short_answer then sample_answer q else correct_answer q)
      in \<lparr>question_index = idx,
          correct = is_correct U q user_ans,
          user_answer = user_ans,
          result_correct_answer = expected,
          result_explanation = (case explanation q of JNull \<Rightarrow> JStr [] | v \<Rightarrow> v),
          result_key_points =
            (if qtype q = short_answer
             then Some (case key_points q of None \<Rightarrow> [] | Some kp \<Rightarrow> kp) else None)\<rparr>
         # grade_from U (Suc idx) qs user_answers)"

definition history :: "'a exam_scheme \<Rightarrow> attempt list" where
  \<comment> \<open>\<open>exam_data['attempts']\<close>, the empty list when the key is missing\<close>
  "history exam_data = (case attempts exam_data of None \<Rightarrow> [] | Some h \<Rightarrow> h)"

definition record_attempt :: "'a exam_scheme \<Rightarrow> attempt \<Rightarrow> 'a exam_scheme" where
  \<comment> \<open>the history update of \<open>submit_exam\<close>\<close>
  "record_attempt exam_data a =
     (let h = history exam_data @ [a];
          best = (if h \<noteq> [] then Max (set (map percentage h)) else percentage a)
      in exam_data\<lparr>attempts := Some h,
                    best_score := Some best,
                    attempt_count := Some (length h),
                    last_attempt := Some (timestamp a)\<rparr>)"

definition submit_exam ::
  "unicode \<Rightarrow> 'a store \<Rightarrow> pystr \<Rightarrow> (pystr \<rightharpoonup> jval) \<Rightarrow> pystr \<Rightarrow> http_error + ('a store \<times> response)" where
  \<comment> \<open>\<open>now\<close> is \<open>datetime.now().isoformat()\<close>\<close>
  "submit_exam U store name user_answers now =
     (let fname = json_name name
      in case store fname of
           None \<Rightarrow> Inl NotFound
         | Some exam_data \<Rightarrow>
             (let res = grade_from U 0 (questions exam_data) user_answers;
                  correct_count = length (filter correct res);
                  n = length (questions exam_data);
                  pct = percentage_of correct_count n;
                  a = \<lparr>timestamp = now, score = correct_count, total = n,
                       percentage = pct\<rparr>;
                  exam_data' = record_attempt exam_data a;
                  best = the (best_score exam_data');
                  k = length (the (attempts exam_data'))
              in Inr (store(fname \<mapsto> exam_data'),
                      \<lparr>response_score = correct_count,
                       response_total = n,
                       response_percentage = pct,
                       results = res,
                       response_best_score = best,
                       attempt_number = k,
                       improved = (if k > 1 then pct \<ge> best else False)\<rparr>)))"

definition reset_exam_attempts :: "'a store \<Rightarrow> pystr \<Rightarrow> http_error + 'a store" where
  "reset_exam_attempts store name =
     (let fname = json_name name
      in case store fname of
           None \<Rightarrow> Inl NotFound
         | Some exam_data \<Rightarrow>
             Inr (store(fname \<mapsto>
                    exam_data\<lparr>attempts := Some [],
                              best_score := None,
                              attempt_count := Some 0,
                              last_attempt := None\<rparr>)))"

fun submit_all ::
  "unicode \<Rightarrow> 'a store \<Rightarrow> pystr \<Rightarrow> ((pystr \<rightharpoonup> jval) \<times> pystr) list \<Rightarrow> http_error + ('a store \<times> response list)"
  where
  \<comment> \<open>one submission after the other against the same exam\<close>
  "submit_all U store name [] = Inr (store, [])"
| "submit_all U store name ((user_answers, now) # rest) =
     (case submit_exam U store name user_answers now of
        Inl e \<Rightarrow> Inl e
      | Inr (store', r) \<Rightarrow>
          (case submit_all U store' name rest of
             Inl e \<Rightarrow> Inl e
           | Inr (store'', rs) \<Rightarrow> Inr (store'', r # rs)))"

definition consistent :: "'a exam_scheme \<Rightarrow> bool" where
  \<comment> \<open>the stored best score is the best percentage of a non-empty history\<close>
  "consistent exam_data \<longleftrightarrow>
     history exam_data = [] \<or>
     best_score exam_data = Some (Max (set (map percentage (history exam_data))))"

definition same_outside_history :: "'a exam_scheme \<Rightarrow> 'a exam_scheme \<Rightarrow> bool" where
  \<comment> \<open>the two records agree on every field that is not a history field\<close>
  "same_outside_history e e' \<longleftrightarrow>
     exam_id e' = exam_id e \<and> title e' = title e \<and> course e' = course e \<and>
     exam_type e' = exam_type e \<and> questions e' = questions e \<and>
     created_at e' = created_at e \<and> exam.more e' = exam.more e"

definition token_presence_true_false :: "unicode \<Rightarrow> question \<Rightarrow> jval \<Rightarrow> bool" where
  \<comment> \<open>the rule of the specification for true/false answers: a boolean is compared
      directly, any other answer is read as the parser reads an \<open>ANSWER:\<close> line, true
      exactly when its upper-cased string form contains \<open>TRUE\<close>\<close>
  "token_presence_true_false U q user_ans =
     (if isinstance_bool user_ans then py_eq user_ans (correct_answer q)
      else py_eq (JBool (contains (py ''TRUE'') (upper U (py_str user_ans)))) (correct_answer q))"

definition example_question :: question where
  "example_question =
     \<lparr>qtype = short_answer,
      question_text = py ''What do mitochondria do?'',
      options = [],
      correct_answer = JNull,
      sample_answer = JStr (py ''the mitochondria produces energy via respiration''),
      key_points = None,
      explanation = JNull\<rparr>"

definition example_true_false :: question where
  "example_true_false =
     \<lparr>qtype = true_false,
      question_text = py ''Mitochondria produce energy.'',
      options = [],
      correct_answer = JBool True,
      sample_answer = JNull,
      key_points = None,
      explanation = JStr (py ''They are the site of respiration.'')\<rparr>"

definition example_exam :: exam where
  "example_exam =
     \<lparr>exam_id = py ''BIO101_exam_20250101_120000_0a1b2c3d'',
      title = py ''Practice Exam'',
      course = py ''BIO101'',
      exam_type = py ''true_false'',
      questions = [example_true_false],
      created_at = py ''2025-01-01T12:00:00'',
      attempts = None,
      best_score = None,
      attempt_count = None,
      last_attempt = None\<rparr>"

definition example_store :: "unit store" where
  "example_store = [py ''bio.json'' \<mapsto> example_exam]"

definition example_exam_taken :: exam where
  \<comment> \<open>\<open>example_exam\<close> after one attempt with every answer right\<close>
  "example_exam_taken =
     example_exam
       \<lparr>attempts := Some [\<lparr>timestamp = py ''2025-01-02T09:00:00'', score = 1, total = 1,
                           percentage = 100\<rparr>],
        best_score := Some 100,
        attempt_count := Some 1,
        last_attempt := Some (py ''2025-01-02T09:00:00'')\<rparr>"

definition new_attempt :: "unicode \<Rightarrow> 'a exam_scheme \<Rightarrow> (pystr \<rightharpoonup> jval) \<Rightarrow> pystr \<Rightarrow> attempt" where
  \<comment> \<open>the attempt record that \<open>submit_exam\<close> creates\<close>
  "new_attempt U e user_answers now =
     (let res = grade_from U 0 (questions e) user_answers;
          correct_count = length (filter correct res);
          n = length (questions e)
      in \<lparr>timestamp = now, score = correct_count, total = n,
          percentage = percentage_of correct_count n\<rparr>)"

section \<open>The response parser\<close>

definition match_marker :: "pystr \<Rightarrow> pystr option" where
  \<comment> \<open>the pattern \<open>\n\s*Q:\s*\<close> matched at the start of \<open>s\<close>: what follows the match\<close>
  "match_marker s =
     (case s of
        [] \<Rightarrow> None
      | c # r \<Rightarrow>
          if c = 10 then
            (let r1 = dropWhile is_space r
             in if startswith r1 (py ''Q:'') then Some (dropWhile is_space (drop 2 r1)) else None)
          else None)"

function re_split_from :: "pystr \<Rightarrow> pystr \<Rightarrow> pystr list" where
  \<comment> \<open>the first argument is the segment being read, reversed\<close>
  "re_split_from cur [] = [rev cur]"
| "re_split_from cur (c # cs) =
     (case match_marker (c # cs) of
        Some rest \<Rightarrow> rev cur # re_split_from [] rest
      | None \<Rightarrow> re_split_from (c # cur) cs)"
  by pat_completeness auto
termination
proof (relation "measure (\<lambda>(cur, s). length s)")
  show "wf (measure (\<lambda>(cur, s). length s))" by simp
next
  fix cur :: pystr and c cs rest
  assume m: "match_marker (c # cs) = Some rest"
  have "length (dropWhile is_space (drop 2 (dropWhile is_space cs))) \<le> length cs"
    using length_dropWhile_le [of is_space "drop 2 (dropWhile is_space cs)"]
      length_dropWhile_le [of is_space cs] by simp
  then have "length rest \<le> length cs"
    using m by (auto simp add: match_marker_def Let_def split: if_splits)
  then show "(([], rest), (cur, c # cs)) \<in> measure (\<lambda>(cur, s). length s)" by simp
next
  fix cur :: pystr and c cs
  show "((c # cur, cs), (cur, c # cs)) \<in> measure (\<lambda>(cur, s). length s)" by simp
qed

definition re_split :: "pystr \<Rightarrow> pystr list" where
  \<comment> \<open>\<open>re.split(r'\n\s*Q:\s*', text)\<close>\<close>
  "re_split text = re_split_from [] text"

definition after_colon :: "pystr \<Rightarrow> pystr option" where
  \<comment> \<open>\<open>line.split(':', 1)[1]\<close>; \<open>None\<close> is the IndexError of a line without a colon\<close>
  "after_colon line =
     (if 58 \<in> set line then Some (drop 1 (dropWhile (\<lambda>c. c \<noteq> 58) line)) else None)"

definition option_letter :: "pystr \<Rightarrow> nat option" where
  \<comment> \<open>\<open>re.match(r'^[A-D]\)', line)\<close>, with \<open>line[0]\<close> when it matches\<close>
  "option_letter line =
     (case line of
        a # b # _ \<Rightarrow> if 65 \<le> a \<and> a \<le> 68 \<and> b = 41 then Some a else None
      | _ \<Rightarrow> None)"

type_synonym mc_fields = "(pystr \<times> pystr) list \<times> pystr option \<times> pystr"

definition mc_line :: "unicode \<Rightarrow> pystr \<Rightarrow> mc_fields \<Rightarrow> mc_fields option" where
  \<comment> \<open>one turn of the loop over \<open>lines[1:]\<close> on the options, the correct letter and the
      explanation; \<open>None\<close> when the line raises an exception\<close>
  "mc_line U l st =
     (case st of (opts, corr, expl) \<Rightarrow>
        (let line = strip l
         in case option_letter line of
              Some letter \<Rightarrow> Some (AList.update [letter] (strip (drop 2 line)) opts, corr, expl)
            | None \<Rightarrow>
                if startswith line (py ''CORRECT:'') then
                  (case after_colon line of
                     None \<Rightarrow> None
                   | Some v \<Rightarrow>
                       (case upper U (strip v) of
                          [] \<Rightarrow> None
                        | c # _ \<Rightarrow> Some (opts, Some [c], expl)))
                else if startswith line (py ''EXPLANATION:'') then
                  (case after_colon line of
                     None \<Rightarrow> None
                   | Some v \<Rightarrow> Some (opts, corr, strip v))
                else Some st))"

fun parse_lines :: "(pystr \<Rightarrow> 's \<Rightarrow> 's option) \<Rightarrow> pystr list \<Rightarrow> 's \<Rightarrow> 's option" where
  \<comment> \<open>a loop over the lines that an exception leaves\<close>
  "parse_lines step [] st = Some st"
| "parse_lines step (l # ls) st =
     (case step l st of None \<Rightarrow> None | Some st' \<Rightarrow> parse_lines step ls st')"

definition parse_mc_section :: "unicode \<Rightarrow> pystr \<Rightarrow> question option" where
  \<comment> \<open>the body of the \<open>try\<close>; \<open>None\<close> when the section adds no question\<close>
  "parse_mc_section U section =
     (case split_on 10 (strip section) of
        [] \<Rightarrow> None
      | l # ls \<Rightarrow>
          (let qtext = strip l
           in case parse_lines (mc_line U) ls ([], None, []) of
                None \<Rightarrow> None
              | Some (opts, corr, expl) \<Rightarrow>
                  (case corr of
                     None \<Rightarrow> None
                   | Some letter \<Rightarrow>
                       if qtext \<noteq> [] \<and> length opts = 4 \<and> letter \<noteq> [] then
                         Some \<lparr>qtype = multiple_choice,
                               question_text = qtext,
                               options = opts,
                               correct_answer = JStr letter,
                               sample_answer = JNull,
                               key_points = None,
                               explanation = JStr expl\<rparr>
                       else None)))"

definition parse_multiple_choice :: "unicode \<Rightarrow> pystr \<Rightarrow> question list" where
  "parse_multiple_choice U text = List.map_filter (parse_mc_section U) (tl (re_split text))"


definition tf_line :: "unicode \<Rightarrow> pystr \<Rightarrow> bool option \<times> pystr \<Rightarrow> (bool option \<times> pystr) option" where
  "tf_line U l st =
     (case st of (ans, expl) \<Rightarrow>
        (let line = strip l
         in if startswith line (py ''ANSWER:'') then
              (case after_colon line of
                 None \<Rightarrow> None
               | Some v \<Rightarrow> Some (Some (contains (py ''TRUE'') (upper U (strip v))), expl))
            else if startswith line (py ''EXPLANATION:'') then
              (case after_colon line of
                 None \<Rightarrow> None
               | Some v \<Rightarrow> Some (ans, strip v))
            else Some st))"

definition parse_tf_section :: "unicode \<Rightarrow> pystr \<Rightarrow> question option" where
  "parse_tf_section U section =
     (case split_on 10 (strip section) of
        [] \<Rightarrow> None
      | l # ls \<Rightarrow>
          (let qtext = strip l
           in case parse_lines (tf_line U) ls (None, []) of
                None \<Rightarrow> None
              | Some (ans, expl) \<Rightarrow>
                  (case ans of
                     None \<Rightarrow> None
                   | Some b \<Rightarrow>
                       if qtext \<noteq> [] then
                         Some \<lparr>qtype = true_false,
                               question_text = qtext,
                               options = [],
                               correct_answer = JBool b,
                               sample_answer = JNull,
                               key_points = None,
                               explanation = JStr expl\<rparr>
                       else None)))"

definition parse_true_false :: "unicode \<Rightarrow> pystr \<Rightarrow> question list" where
  "parse_true_false U text = List.map_filter (parse_tf_section U) (tl (re_split text))"

definition sa_line :: "pystr \<Rightarrow> pystr \<times> pystr \<Rightarrow> (pystr \<times> pystr) option" where
  "sa_line l st =
     (case st of (sample, kp) \<Rightarrow>
        (let line = strip l
         in if startswith line (py ''SAMPLE_ANSWER:'') then
              (case after_colon line of
                 None \<Rightarrow> None
               | Some v \<Rightarrow> Some (strip v, kp))
            else if startswith line (py ''KEY_POINTS:'') then
              (case after_colon line of
                 None \<Rightarrow> None
               | Some v \<Rightarrow> Some (sample, strip v))
            else Some st))"

definition parse_sa_section :: "pystr \<Rightarrow> question option" where
  "parse_sa_section section =
     (case split_on 10 (strip section) of
        [] \<Rightarrow> None
      | l # ls \<Rightarrow>
          (let qtext = strip l
           in case parse_lines sa_line ls ([], []) of
                None \<Rightarrow> None
              | Some (sample, kp) \<Rightarrow>
                  if qtext \<noteq> [] \<and> sample \<noteq> [] then
                    Some \<lparr>qtype = short_answer,
                          question_text = qtext,
                          options = [],
                          correct_answer = JNull,
                          sample_answer = JStr sample,
                          key_points = Some kp,
                          explanation = JNull\<rparr>
                  else None))"

definition parse_short_answer :: "pystr \<Rightarrow> question list" where
  "parse_short_answer text = List.map_filter parse_sa_section (tl (re_split text))"

definition lines :: "pystr list \<Rightarrow> pystr" where
  \<comment> \<open>the lines joined with newlines\<close>
  "lines ls = (case ls of [] \<Rightarrow> [] | l # rest \<Rightarrow> l @ concat (map (\<lambda>x. 10 # x) rest))"

definition example_mc_block :: pystr where
  "example_mc_block =
     lines [py ''Q: Which organelle produces most of the energy of a cell?'',
            py ''A) Nucleus'',
            py ''B) Mitochondrion'',
            py ''C) Ribosome'',
            py ''D) Golgi apparatus'',
            py ''CORRECT: B'',
            py ''EXPLANATION: Respiration takes place in the mitochondria.'']"

definition example_mc_answer_text :: pystr where
  \<comment> \<open>the answer is written out instead of its letter\<close>
  "example_mc_answer_text =
     lines [py ''Here is the question:'',
            py ''Q: Which organelle produces most of the energy of a cell?'',
            py ''A) Nucleus'',
            py ''B) Mitochondrion'',
            py ''C) Ribosome'',
            py ''D) Golgi apparatus'',
            py ''CORRECT: Mitochondrion'']"

definition example_tf_block :: pystr where
  "example_tf_block =
     lines [py ''Q: Mitochondria produce energy.'',
            py ''ANSWER: TRUE'',
            py ''EXPLANATION: They are the site of respiration.'']"

definition example_sa_block :: pystr where
  "example_sa_block =
     lines [py ''Q: How do mitochondria produce energy?'',
            py ''SAMPLE_ANSWER: the mitochondria produces energy via respiration'',
            py ''KEY_POINTS: respiration, energy, mitochondria'']"

definition correct_letter_in_options :: "question \<Rightarrow> bool" where
  \<comment> \<open>the correct answer is a key of the options\<close>
  "correct_letter_in_options q =
     (case correct_answer q of JStr letter \<Rightarrow> letter \<in> fst ` set (options q) | _ \<Rightarrow> False)"

definition mc_inv :: "mc_fields \<Rightarrow> bool" where
  "mc_inv st \<longleftrightarrow>
     (case st of (opts, corr, expl) \<Rightarrow>
        distinct (map fst opts) \<and> fst ` set opts \<subseteq> {[65], [66], [67], [68]})"

definition correct_lines :: "pystr list \<Rightarrow> pystr list" where
  \<comment> \<open>the lines that start with \<open>CORRECT:\<close> once stripped\<close>
  "correct_lines ls = filter (\<lambda>l. startswith (strip l) (py ''CORRECT:'')) ls"

definition example_dotted_question :: question where
  \<comment> \<open>a question whose sample answer is U+0130, five times\<close>
  "example_dotted_question =
     \<lparr>qtype = short_answer,
      question_text = py ''Which letter is it?'',
      options = [],
      correct_answer = JNull,
      sample_answer = JStr [304, 304, 304, 304, 304],
      key_points = None,
      explanation = JNull\<rparr>"






section \<open>The trivial-answer guard\<close>

lemma length_strip_le: "length (strip s) \<le> length s"
proof -
  have "length (strip s) \<le> length (rev (dropWhile is_space s))"
    using length_dropWhile_le [of is_space "rev (dropWhile is_space s)"]
    by (simp add: strip_def)
  also have "\<dots> \<le> length s"
    using length_dropWhile_le [of is_space s] by simp
  finally show ?thesis .
qed

lemma grade_short_answer_short_text:
  "length (strip (lower U (py_str user_ans))) < 10 \<Longrightarrow> \<not> grade_short_answer U q user_ans"
  by (simp add: grade_short_answer_def Let_def)

lemma lower_ascii: "ascii s \<Longrightarrow> lower U s = map lower_cp s"
  by (simp add: lower_def)

lemma upper_ascii: "ascii s \<Longrightarrow> upper U s = map upper_cp s"
  by (simp add: upper_def)

lemma one_fifth_of_one: "float_mul (float_of_nat 1) (fl (1 / 5)) \<le> 1"
  by code_simp

lemma dotted_lower:
  "strip (lower example_unicode [304, 304, 304, 304, 304]) =
   [105, 775, 105, 775, 105, 775, 105, 775, 105, 775]"
  by (simp add: example_unicode_def lower_def ascii_def strip_def is_space_def)

lemma dotted_words:
  "split_ws [105, 775, 105, 775, 105, 775, 105, 775, 105, 775] =
   [[105, 775, 105, 775, 105, 775, 105, 775, 105, 775]]"
  by (simp add: split_ws_def is_space_def)

text \<open>
  Claim C5, as stated: an answer of fewer than 10 characters is never correct. It fails:
  the guard measures the answer after it is lower-cased and stripped, and lower-casing
  turns U+0130 into two code points. The answer of five U+0130 has 5 characters, its
  lower case has 10, and it is graded correct against a sample answer that is the same
  word.
\<close>

theorem short_answer_under_10_counterexample:
  "length (py_str (JStr [304, 304, 304, 304, 304])) < 10 \<and>
   is_correct example_unicode example_dotted_question (JStr [304, 304, 304, 304, 304])"
  using one_fifth_of_one
  by (simp add: is_correct_def grade_short_answer_def example_dotted_question_def
      dotted_lower dotted_words word_overlap_def Let_def)

text \<open>
  Claim C5, amended. A short-answer question never grades as correct an answer whose
  text, lower-cased and stripped of surrounding whitespace, has fewer than 10 characters,
  whatever the sample answer and the key points are. An answer of fewer than 10 ASCII
  characters is such an answer.
\<close>

theorem short_answer_trivial_guard:
  assumes "qtype q = short_answer"
  shows "(length (strip (lower U (py_str user_ans))) < 10 \<longrightarrow> \<not> is_correct U q user_ans) \<and>
         (ascii (py_str user_ans) \<and> length (py_str user_ans) < 10 \<longrightarrow>
            \<not> is_correct U q user_ans)"
proof -
  have short: "\<not> is_correct U q user_ans" if "length (strip (lower U (py_str user_ans))) < 10"
    using that assms grade_short_answer_short_text [of U user_ans q]
    by (simp add: is_correct_def)
  have "length (strip (lower U (py_str user_ans))) < 10"
    if "ascii (py_str user_ans) \<and> length (py_str user_ans) < 10"
  proof -
    have "length (strip (lower U (py_str user_ans))) \<le> length (lower U (py_str user_ans))"
      by (rule length_strip_le)
    also have "\<dots> = length (py_str user_ans)"
      using that by (simp add: lower_ascii)
    finally show ?thesis using that by simp
  qed
  with short show ?thesis by blast
qed

theorem short_answer_trivial_guard_witness:
  "qtype example_question = short_answer \<and>
   ascii (py_str (JStr (py ''energy''))) \<and>
   length (py_str (JStr (py ''energy''))) < 10 \<and>
   length (strip (lower example_unicode (py_str (JStr (py ''energy''))))) < 10 \<and>
   \<not> is_correct example_unicode example_question (JStr (py ''energy''))"
proof -
  have q: "qtype example_question = short_answer"
    by (simp add: example_question_def)
  have a: "ascii (py_str (JStr (py ''energy'')))"
    by (simp add: py_def ascii_def)
  have l: "length (py_str (JStr (py ''energy''))) < 10"
    by (simp add: py_def)
  have s: "length (strip (lower example_unicode (py_str (JStr (py ''energy''))))) < 10"
    by (simp add: py_def lower_def ascii_def strip_def is_space_def lower_cp_def)
  from short_answer_trivial_guard [OF q, of example_unicode "JStr (py ''energy'')"] a l
  have "\<not> is_correct example_unicode example_question (JStr (py ''energy''))"
    by blast
  with q a l s show ?thesis by blast
qed

section \<open>True/false grading\<close>

text \<open>
  Claim C2, as stated: a true/false answer that is not a boolean is graded by the
  token-presence rule of the parser. It fails: the answer \<open>not true\<close> contains \<open>TRUE\<close>
  once upper-cased, so the rule reads it as true and the claim grades it correct against a
  stored \<open>true\<close>, but the code compares the lower-cased strings for equality and grades it
  incorrect.
\<close>

theorem true_false_token_presence_counterexample:
  "\<not> (is_correct example_unicode example_true_false (JStr (py ''not true'')) \<longleftrightarrow>
      token_presence_true_false example_unicode example_true_false (JStr (py ''not true'')))"
  by (simp add: example_true_false_def token_presence_true_false_def is_correct_def
      grade_true_false_def py_def upper_def lower_def ascii_def upper_cp_def lower_cp_def
      startswith_def)

text \<open>
  Claim C2, amended. For a true/false question with a stored boolean, a boolean answer is
  correct exactly when it equals the stored boolean, and any other answer is correct
  exactly when its string form, lower-cased, equals the lower-cased string form of the
  stored boolean (\<open>true\<close> or \<open>false\<close>). So the string \<open>True\<close> is correct exactly against
  a stored \<open>true\<close>, and the string \<open>yes\<close> is never correct.
\<close>

theorem true_false_grading:
  assumes "qtype q = true_false" and "correct_answer q = JBool b"
  shows "(is_correct U q (JBool a) \<longleftrightarrow> a = b) \<and>
         (\<not> isinstance_bool user_ans \<longrightarrow>
            (is_correct U q user_ans \<longleftrightarrow>
               lower U (py_str user_ans) = (if b then py ''true'' else py ''false''))) \<and>
         (is_correct U q (JStr (py ''True'')) \<longleftrightarrow> b) \<and>
         \<not> is_correct U q (JStr (py ''yes''))"
  using assms
  by (auto simp add: is_correct_def grade_true_false_def py_def lower_def ascii_def lower_cp_def)

theorem true_false_grading_witness:
  "qtype example_true_false = true_false \<and>
   correct_answer example_true_false = JBool True \<and>
   \<not> isinstance_bool (JStr (py ''TRUE'')) \<and>
   is_correct example_unicode example_true_false (JBool True) \<and>
   is_correct example_unicode example_true_false (JStr (py ''TRUE'')) \<and>
   is_correct example_unicode example_true_false (JStr (py ''True'')) \<and>
   \<not> is_correct example_unicode example_true_false (JStr (py ''yes''))"
  using true_false_grading [of example_true_false True example_unicode True "JStr (py ''TRUE'')"]
  by (simp add: example_true_false_def py_def lower_def ascii_def lower_cp_def)

section \<open>The attempt history\<close>

lemma endswith_append: "endswith (n @ p) p"
  by (simp add: endswith_def startswith_def)

lemma json_name_idem: "json_name (json_name n) = json_name n"
  by (simp add: json_name_def endswith_append)

lemma history_record_attempt: "history (record_attempt e a) = history e @ [a]"
  by (simp add: record_attempt_def history_def Let_def)

lemma attempts_record_attempt: "attempts (record_attempt e a) = Some (history e @ [a])"
  by (simp add: record_attempt_def Let_def)

lemma best_score_record_attempt:
  "best_score (record_attempt e a) = Some (Max (set (map percentage (history e @ [a]))))"
  by (simp add: record_attempt_def Let_def)

lemma attempt_count_record_attempt:
  "attempt_count (record_attempt e a) = Some (length (history e) + 1)"
  by (simp add: record_attempt_def Let_def)

lemma last_attempt_record_attempt: "last_attempt (record_attempt e a) = Some (timestamp a)"
  by (simp add: record_attempt_def Let_def)

lemma same_outside_record_attempt: "same_outside_history e (record_attempt e a)"
  by (simp add: record_attempt_def same_outside_history_def Let_def)

lemma consistent_record_attempt: "consistent (record_attempt e a)"
  by (simp add: consistent_def history_record_attempt best_score_record_attempt)

lemma submit_exam_found:
  assumes "store (json_name name) = Some e"
  shows "submit_exam U store name ua now =
         Inr (store(json_name name \<mapsto> record_attempt e (new_attempt U e ua now)),
              \<lparr>response_score = score (new_attempt U e ua now),
               response_total = total (new_attempt U e ua now),
               response_percentage = percentage (new_attempt U e ua now),
               results = grade_from U 0 (questions e) ua,
               response_best_score = Max (set (map percentage (history e @ [new_attempt U e ua now]))),
               attempt_number = length (history e) + 1,
               improved = (if length (history e) + 1 > 1
                           then percentage (new_attempt U e ua now) \<ge>
                                Max (set (map percentage (history e @ [new_attempt U e ua now])))
                           else False)\<rparr>)"
  using assms
  by (simp add: submit_exam_def Let_def new_attempt_def attempts_record_attempt
      best_score_record_attempt)

lemma submit_exam_not_found:
  "store (json_name name) = None \<Longrightarrow> submit_exam U store name ua now = Inl NotFound"
  by (simp add: submit_exam_def)

lemma submit_all_history:
  assumes "store (json_name name) = Some e"
  shows "\<exists>store' rs e'. submit_all U store name subs = Inr (store', rs) \<and>
           length rs = length subs \<and> store' (json_name name) = Some e' \<and>
           map percentage (history e') = map percentage (history e) @ map response_percentage rs \<and>
           (subs \<noteq> [] \<longrightarrow> best_score e' = Some (Max (set (map percentage (history e')))))"
  using assms
proof (induction subs arbitrary: store e)
  case Nil
  then show ?case by simp
next
  case (Cons sub subs)
  obtain ua now where sub: "sub = (ua, now)" by (cases sub)
  let ?e1 = "record_attempt e (new_attempt U e ua now)"
  let ?s1 = "store(json_name name \<mapsto> ?e1)"
  obtain r where step: "submit_exam U store name ua now = Inr (?s1, r)"
    and pr: "response_percentage r = percentage (new_attempt U e ua now)"
    using submit_exam_found [of store name e U ua now] Cons.prems by simp
  have "?s1 (json_name name) = Some ?e1" by simp
  from Cons.IH [of ?s1 ?e1, OF this] obtain store' rs e' where
    rest: "submit_all U ?s1 name subs = Inr (store', rs)" and
    len: "length rs = length subs" and
    look: "store' (json_name name) = Some e'" and
    hist: "map percentage (history e') = map percentage (history ?e1) @ map response_percentage rs" and
    best: "subs \<noteq> [] \<longrightarrow> best_score e' = Some (Max (set (map percentage (history e'))))"
    by blast
  have all: "submit_all U store name (sub # subs) = Inr (store', r # rs)"
    by (simp add: sub step rest)
  have hist': "map percentage (history e') =
               map percentage (history e) @ map response_percentage (r # rs)"
    by (simp add: hist history_record_attempt pr)
  have best': "best_score e' = Some (Max (set (map percentage (history e'))))"
  proof (cases "subs = []")
    case True
    then have "store' = ?s1" and "rs = []" using rest by simp_all
    then have "e' = ?e1" using look by simp
    then show ?thesis by (simp add: best_score_record_attempt history_record_attempt)
  next
    case False
    then show ?thesis using best by simp
  qed
  show ?case
  proof (intro exI conjI impI)
    show "submit_all U store name (sub # subs) = Inr (store', r # rs)" by (fact all)
    show "length (r # rs) = length (sub # subs)" using len by simp
    show "store' (json_name name) = Some e'" by (fact look)
    show "map percentage (history e') =
          map percentage (history e) @ map response_percentage (r # rs)" by (fact hist')
    show "best_score e' = Some (Max (set (map percentage (history e'))))" by (fact best')
  qed
qed


lemma reset_exam_attempts_found:
  assumes "store (json_name name) = Some e"
  shows "reset_exam_attempts store name =
         Inr (store(json_name name \<mapsto>
                e\<lparr>attempts := Some [], best_score := None, attempt_count := Some 0,
                  last_attempt := None\<rparr>))"
  using assms by (simp add: reset_exam_attempts_def)

lemma example_store_lookup: "example_store (json_name (py ''bio'')) = Some example_exam"
  by (simp add: example_store_def json_name_def endswith_def startswith_def py_def)

text \<open>
  Claim C3. After a sequence of submissions against an exam that is in the store, every
  submission has returned, and the stored best score is the maximum of the percentages of
  the whole history, the new attempts included: the percentages that were in the history
  before, followed by the percentages of these submissions. For an exam whose history was
  empty it is the maximum of the percentages of these submissions.
\<close>

theorem best_score_is_max_of_history:
  assumes "store (json_name name) = Some e"
  shows "\<exists>store' rs e'. submit_all U store name subs = Inr (store', rs) \<and>
           length rs = length subs \<and> store' (json_name name) = Some e' \<and>
           (subs \<noteq> [] \<longrightarrow>
              best_score e' = Some (Max (set (map percentage (history e')))) \<and>
              best_score e' =
                Some (Max (set (map percentage (history e) @ map response_percentage rs)))) \<and>
           (subs \<noteq> [] \<and> history e = [] \<longrightarrow>
              best_score e' = Some (Max (set (map response_percentage rs))))"
proof -
  from submit_all_history [of store name e U subs] assms obtain store' rs e' where
    a: "submit_all U store name subs = Inr (store', rs)" "length rs = length subs"
       "store' (json_name name) = Some e'"
       "map percentage (history e') = map percentage (history e) @ map response_percentage rs"
       "subs \<noteq> [] \<longrightarrow> best_score e' = Some (Max (set (map percentage (history e'))))"
    by blast
  have b: "set (map percentage (history e')) =
           set (map percentage (history e) @ map response_percentage rs)"
    using a(4) by simp
  show ?thesis
  proof (intro exI conjI impI)
    show "submit_all U store name subs = Inr (store', rs)" by (fact a(1))
    show "length rs = length subs" by (fact a(2))
    show "store' (json_name name) = Some e'" by (fact a(3))
    show "best_score e' = Some (Max (set (map percentage (history e'))))" if "subs \<noteq> []"
      using a(5) that by simp
    show "best_score e' =
          Some (Max (set (map percentage (history e) @ map response_percentage rs)))"
      if "subs \<noteq> []"
      using a(5) that b by simp
    show "best_score e' = Some (Max (set (map response_percentage rs)))"
      if "subs \<noteq> [] \<and> history e = []"
      using a(5) that b by simp
  qed
qed


theorem best_score_is_max_of_history_witness:
  "example_store (json_name (py ''bio'')) = Some example_exam \<and>
   [(Map.empty, py ''t1''), ([py ''0'' \<mapsto> JBool True], py ''t2'')] \<noteq> [] \<and>
   history example_exam = [] \<and>
   (\<exists>store' rs e'.
      submit_all example_unicode example_store (py ''bio'')
        [(Map.empty, py ''t1''), ([py ''0'' \<mapsto> JBool True], py ''t2'')] = Inr (store', rs) \<and>
      length rs = 2 \<and> store' (json_name (py ''bio'')) = Some e' \<and>
      best_score e' = Some (Max (set (map response_percentage rs))))"
proof -
  let ?subs = "[(Map.empty, py ''t1''), ([py ''0'' \<mapsto> JBool True], py ''t2'')]"
  have look: "example_store (json_name (py ''bio'')) = Some example_exam"
    by (rule example_store_lookup)
  have ne: "?subs \<noteq> []" by simp
  have h: "history example_exam = []"
    by (simp add: history_def example_exam_def)
  have len: "length ?subs = 2" by simp
  from best_score_is_max_of_history [of example_store "py ''bio''" example_exam example_unicode ?subs, OF look]
  obtain store' rs e' where
    "submit_all example_unicode example_store (py ''bio'') ?subs = Inr (store', rs)"
    "length rs = length ?subs"
    "store' (json_name (py ''bio'')) = Some e'"
    "?subs \<noteq> [] \<and> history example_exam = [] \<longrightarrow>
       best_score e' = Some (Max (set (map response_percentage rs)))"
    by blast
  with ne h len have
    "submit_all example_unicode example_store (py ''bio'') ?subs = Inr (store', rs) \<and>
     length rs = 2 \<and> store' (json_name (py ''bio'')) = Some e' \<and>
     best_score e' = Some (Max (set (map response_percentage rs)))"
    by metis
  then have "\<exists>store' rs e'.
      submit_all example_unicode example_store (py ''bio'') ?subs = Inr (store', rs) \<and>
      length rs = 2 \<and> store' (json_name (py ''bio'')) = Some e' \<and>
      best_score e' = Some (Max (set (map response_percentage rs)))"
    by blast
  with look ne h show ?thesis by blast
qed





text \<open>
  Claim C9. Against an exam that is in the store, a submission stores the record with
  the attempts it had (none when the key was missing), each one as it was and in the same
  order, followed by one new attempt, and with the best score, the attempt count and the
  time of the last attempt recomputed from that list; a reset stores it with an empty list
  of attempts, no best score, the count 0 and no last attempt. Both leave the identifier,
  the title, the course, the exam type, the questions, the creation time and every other
  field of the record as they were, and every other record of the store as well.
\<close>

theorem submit_and_reset_frame:
  assumes "store (json_name name) = Some e"
  shows "(\<exists>a r e'.
            submit_exam U store name user_answers now = Inr (store(json_name name \<mapsto> e'), r) \<and>
            attempts e' = Some ((case attempts e of None \<Rightarrow> [] | Some h \<Rightarrow> h) @ [a]) \<and>
            timestamp a = now \<and> percentage a = response_percentage r \<and>
            best_score e' =
              Some (Max (set (map percentage
                               ((case attempts e of None \<Rightarrow> [] | Some h \<Rightarrow> h) @ [a])))) \<and>
            attempt_count e' =
              Some (length (case attempts e of None \<Rightarrow> [] | Some h \<Rightarrow> h) + 1) \<and>
            last_attempt e' = Some now \<and>
            same_outside_history e e') \<and>
         (\<exists>e'.
            reset_exam_attempts store name = Inr (store(json_name name \<mapsto> e')) \<and>
            attempts e' = Some [] \<and> best_score e' = None \<and>
            attempt_count e' = Some 0 \<and> last_attempt e' = None \<and>
            same_outside_history e e')"
proof
  let ?a = "new_attempt U e user_answers now"
  let ?e' = "record_attempt e ?a"
  let ?prior = "case attempts e of None \<Rightarrow> [] | Some h \<Rightarrow> h"
  have prior: "history e = ?prior" by (simp add: history_def)
  obtain r where
    s: "submit_exam U store name user_answers now = Inr (store(json_name name \<mapsto> ?e'), r)"
    and p: "response_percentage r = percentage ?a"
    using submit_exam_found [of store name e U user_answers now] assms by simp
  have t: "timestamp ?a = now"
    by (simp add: new_attempt_def Let_def)
  show "\<exists>a r e'.
            submit_exam U store name user_answers now = Inr (store(json_name name \<mapsto> e'), r) \<and>
            attempts e' = Some (?prior @ [a]) \<and>
            timestamp a = now \<and> percentage a = response_percentage r \<and>
            best_score e' = Some (Max (set (map percentage (?prior @ [a])))) \<and>
            attempt_count e' = Some (length ?prior + 1) \<and>
            last_attempt e' = Some now \<and>
            same_outside_history e e'"
  proof (intro exI conjI)
    show "submit_exam U store name user_answers now = Inr (store(json_name name \<mapsto> ?e'), r)"
      by (fact s)
    show "attempts ?e' = Some (?prior @ [?a])"
      using attempts_record_attempt [of e ?a] by (simp only: prior)
    show "timestamp ?a = now" by (fact t)
    show "percentage ?a = response_percentage r" using p by simp
    show "best_score ?e' = Some (Max (set (map percentage (?prior @ [?a]))))"
      using best_score_record_attempt [of e ?a] by (simp only: prior)
    show "attempt_count ?e' = Some (length ?prior + 1)"
      using attempt_count_record_attempt [of e ?a] by (simp only: prior)
    show "last_attempt ?e' = Some now"
      using t by (simp add: last_attempt_record_attempt)
    show "same_outside_history e ?e'" by (rule same_outside_record_attempt)
  qed
next
  let ?e' = "e\<lparr>attempts := Some [], best_score := None, attempt_count := Some 0,
                last_attempt := None\<rparr>"
  have "reset_exam_attempts store name = Inr (store(json_name name \<mapsto> ?e'))"
    using assms by (rule reset_exam_attempts_found)
  moreover have "same_outside_history e ?e'"
    by (simp add: same_outside_history_def)
  ultimately show "\<exists>e'.
            reset_exam_attempts store name = Inr (store(json_name name \<mapsto> e')) \<and>
            attempts e' = Some [] \<and> best_score e' = None \<and>
            attempt_count e' = Some 0 \<and> last_attempt e' = None \<and>
            same_outside_history e e'"
    by (intro exI [of _ ?e']) simp
qed

theorem submit_and_reset_frame_witness:
  "[py ''bio.json'' \<mapsto> example_exam_taken] (json_name (py ''bio'')) = Some example_exam_taken \<and>
   (\<exists>a r e'.
      submit_exam example_unicode [py ''bio.json'' \<mapsto> example_exam_taken] (py ''bio'')
        [py ''0'' \<mapsto> JBool True] (py ''2025-01-03T09:00:00'') =
        Inr ([py ''bio.json'' \<mapsto> example_exam_taken](json_name (py ''bio'') \<mapsto> e'), r) \<and>
      attempts e' =
        Some [\<lparr>timestamp = py ''2025-01-02T09:00:00'', score = 1, total = 1, percentage = 100\<rparr>,
              a] \<and>
      timestamp a = py ''2025-01-03T09:00:00'' \<and>
      attempt_count e' = Some 2 \<and>
      questions e' = [example_true_false] \<and> title e' = py ''Practice Exam'') \<and>
   (\<exists>e'.
      reset_exam_attempts [py ''bio.json'' \<mapsto> example_exam_taken] (py ''bio'') =
        Inr ([py ''bio.json'' \<mapsto> example_exam_taken](json_name (py ''bio'') \<mapsto> e')) \<and>
      attempts e' = Some [] \<and> best_score e' = None \<and> attempt_count e' = Some 0 \<and>
      last_attempt e' = None \<and> questions e' = [example_true_false])"
proof -
  let ?store = "[py ''bio.json'' \<mapsto> example_exam_taken]"
  let ?old = "\<lparr>timestamp = py ''2025-01-02T09:00:00'', score = 1, total = 1,
                percentage = 100\<rparr>"
  have look: "?store (json_name (py ''bio'')) = Some example_exam_taken"
    by (simp add: json_name_def endswith_def startswith_def py_def)
  have h: "(case attempts example_exam_taken of None \<Rightarrow> [] | Some h \<Rightarrow> h) = [?old]"
    by (simp add: example_exam_taken_def)
  have q: "questions example_exam_taken = [example_true_false]"
    "title example_exam_taken = py ''Practice Exam''"
    by (simp_all add: example_exam_taken_def example_exam_def)
  from submit_and_reset_frame [of ?store "py ''bio''" example_exam_taken example_unicode
      "[py ''0'' \<mapsto> JBool True]" "py ''2025-01-03T09:00:00''", OF look]
  obtain a r e1 e2 where
    s: "submit_exam example_unicode ?store (py ''bio'') [py ''0'' \<mapsto> JBool True]
          (py ''2025-01-03T09:00:00'') = Inr (?store(json_name (py ''bio'') \<mapsto> e1), r)"
    and at: "attempts e1 =
          Some ((case attempts example_exam_taken of None \<Rightarrow> [] | Some h \<Rightarrow> h) @ [a])"
    and ts: "timestamp a = py ''2025-01-03T09:00:00''"
    and ac: "attempt_count e1 =
          Some (length (case attempts example_exam_taken of None \<Rightarrow> [] | Some h \<Rightarrow> h) + 1)"
    and so1: "same_outside_history example_exam_taken e1"
    and rs: "reset_exam_attempts ?store (py ''bio'') =
          Inr (?store(json_name (py ''bio'') \<mapsto> e2))"
    and r2: "attempts e2 = Some []" "best_score e2 = None" "attempt_count e2 = Some 0"
      "last_attempt e2 = None"
    and so2: "same_outside_history example_exam_taken e2"
    by blast
  have at': "attempts e1 = Some [?old, a]" using at by (simp only: h) simp
  have ac': "attempt_count e1 = Some 2" using ac by (simp only: h) simp
  have q1: "questions e1 = [example_true_false]" "title e1 = py ''Practice Exam''"
    using so1 q by (simp_all add: same_outside_history_def)
  have q2: "questions e2 = [example_true_false]"
    using so2 q by (simp add: same_outside_history_def)
  have first: "\<exists>a r e'.
      submit_exam example_unicode ?store (py ''bio'') [py ''0'' \<mapsto> JBool True]
        (py ''2025-01-03T09:00:00'') = Inr (?store(json_name (py ''bio'') \<mapsto> e'), r) \<and>
      attempts e' = Some [?old, a] \<and>
      timestamp a = py ''2025-01-03T09:00:00'' \<and>
      attempt_count e' = Some 2 \<and>
      questions e' = [example_true_false] \<and> title e' = py ''Practice Exam''"
    using s at' ts ac' q1 by blast
  have second: "\<exists>e'.
      reset_exam_attempts ?store (py ''bio'') = Inr (?store(json_name (py ''bio'') \<mapsto> e')) \<and>
      attempts e' = Some [] \<and> best_score e' = None \<and> attempt_count e' = Some 0 \<and>
      last_attempt e' = None \<and> questions e' = [example_true_false]"
    using rs r2 q2 by blast
  from look first second show ?thesis by (intro conjI)
qed

section \<open>Parsed multiple-choice questions\<close>

lemma update_keys_subset:
  "fst ` set (AList.update k v al) = insert k (fst ` set al)"
  by (induction al) auto


lemma option_letter_range: "option_letter line = Some a \<Longrightarrow> [a] \<in> {[65], [66], [67], [68]}"
proof -
  assume "option_letter line = Some a"
  then have "65 \<le> a \<and> a \<le> 68"
    by (cases line; cases "tl line") (simp_all add: option_letter_def split: if_splits)
  then have "a = 65 \<or> a = 66 \<or> a = 67 \<or> a = 68" by arith
  then show ?thesis by auto
qed

lemma option_line_not_correct:
  assumes "option_letter line = Some a"
  shows "\<not> startswith line (py ''CORRECT:'')"
proof -
  obtain x y rest where line: "line = x # y # rest" and y: "y = 41"
    using assms
    by (cases line; cases "tl line") (auto simp add: option_letter_def split: if_splits)
  show ?thesis
    by (simp add: line y startswith_def py_def)
qed

lemma mc_line_inv:
  assumes "mc_line U l st = Some st'" and "mc_inv st"
  shows "mc_inv st'"
proof -
  obtain opts corr expl where st: "st = (opts, corr, expl)" by (cases st)
  show ?thesis
  proof (cases "option_letter (strip l)")
    case (Some a)
    then have st': "st' = (AList.update [a] (strip (drop 2 (strip l))) opts, corr, expl)"
      using assms(1) by (simp add: mc_line_def st Let_def)
    have "distinct (map fst (AList.update [a] (strip (drop 2 (strip l))) opts))"
      using assms(2) by (simp add: mc_inv_def st distinct_update)
    moreover have "fst ` set (AList.update [a] (strip (drop 2 (strip l))) opts)
                   \<subseteq> {[65], [66], [67], [68]}"
      using assms(2) option_letter_range [OF Some]
      by (simp only: update_keys_subset) (simp add: mc_inv_def st)
    ultimately show ?thesis
      by (simp add: mc_inv_def st')
  next
    case None
    then obtain corr' expl' where "st' = (opts, corr', expl')"
      using assms(1)
      by (auto simp add: mc_line_def st Let_def split: if_splits option.splits list.splits)
    then show ?thesis
      using assms(2) by (simp add: mc_inv_def st)
  qed
qed

lemma mc_line_correct:
  assumes "mc_line U l (opts, corr, expl) = Some (opts', corr', expl')"
  shows "if startswith (strip l) (py ''CORRECT:'')
         then \<exists>v c rest. after_colon (strip l) = Some v \<and> upper U (strip v) = c # rest \<and>
                corr' = Some [c]
         else corr' = corr"
proof (cases "option_letter (strip l)")
  case (Some a)
  then have "\<not> startswith (strip l) (py ''CORRECT:'')"
    by (rule option_line_not_correct)
  moreover have "corr' = corr"
    using assms Some by (simp add: mc_line_def Let_def)
  ultimately show ?thesis by simp
next
  case None
  show ?thesis
  proof (cases "startswith (strip l) (py ''CORRECT:'')")
    case True
    then obtain v where v: "after_colon (strip l) = Some v"
      using assms None by (cases "after_colon (strip l)") (simp_all add: mc_line_def Let_def)
    then obtain c rest where u: "upper U (strip v) = c # rest"
      using assms None True
      by (cases "upper U (strip v)") (simp_all add: mc_line_def Let_def)
    then have "corr' = Some [c]"
      using assms None True v by (simp add: mc_line_def Let_def)
    then show ?thesis using True v u by simp
  next
    case False
    then have "corr' = corr"
      using assms None
      by (auto simp add: mc_line_def Let_def split: if_splits option.splits)
    then show ?thesis using False by simp
  qed
qed

lemma parse_lines_correct:
  assumes "parse_lines (mc_line U) ls (opts, corr, expl) = Some (opts', corr', expl')"
  shows "if correct_lines ls = [] then corr' = corr
         else \<exists>v c rest. after_colon (strip (last (correct_lines ls))) = Some v \<and>
                upper U (strip v) = c # rest \<and> corr' = Some [c]"
  using assms
proof (induction ls arbitrary: opts corr expl)
  case Nil
  then show ?case by (simp add: correct_lines_def)
next
  case (Cons l ls)
  obtain st1 where s1: "mc_line U l (opts, corr, expl) = Some st1"
    and r: "parse_lines (mc_line U) ls st1 = Some (opts', corr', expl')"
    using Cons.prems by (cases "mc_line U l (opts, corr, expl)") simp_all
  obtain opts1 corr1 expl1 where st1: "st1 = (opts1, corr1, expl1)" by (cases st1)
  note step = mc_line_correct [OF s1 [unfolded st1]]
  note ih = Cons.IH [OF r [unfolded st1]]
  show ?case
  proof (cases "startswith (strip l) (py ''CORRECT:'')")
    case True
    then obtain v c rest where v: "after_colon (strip l) = Some v"
      "upper U (strip v) = c # rest" "corr1 = Some [c]"
      using step by auto
    have cl: "correct_lines (l # ls) = l # correct_lines ls"
      using True by (simp add: correct_lines_def)
    show ?thesis
    proof (cases "correct_lines ls = []")
      case e: True
      then have "corr' = Some [c]" using ih v(3) by simp
      then show ?thesis using v e by (simp add: cl)
    next
      case ne: False
      then show ?thesis using ih by (simp add: cl)
    qed
  next
    case False
    then have "corr1 = corr" using step by simp
    moreover have "correct_lines (l # ls) = correct_lines ls"
      using False by (simp add: correct_lines_def)
    ultimately show ?thesis using ih by (cases "correct_lines ls = []") simp_all
  qed
qed

lemma parse_lines_inv:
  assumes "parse_lines step ls st = Some st'" and "P st"
    and "\<And>l s s'. step l s = Some s' \<Longrightarrow> P s \<Longrightarrow> P s'"
  shows "P st'"
  using assms(1,2)
proof (induction ls arbitrary: st)
  case Nil
  then show ?case by simp
next
  case (Cons l ls)
  then obtain s1 where s1: "step l st = Some s1" and r: "parse_lines step ls s1 = Some st'"
    by (cases "step l st") simp_all
  have "P s1" using s1 Cons.prems(2) by (rule assms(3))
  with r show ?case by (rule Cons.IH)
qed

lemma parse_mc_section_shape:
  assumes "parse_mc_section U sec = Some q"
  shows "qtype q = multiple_choice \<and> question_text q \<noteq> [] \<and> length (options q) = 4 \<and>
         fst ` set (options q) = {py ''A'', py ''B'', py ''C'', py ''D''} \<and>
         (\<exists>l ls v c rest.
            split_on 10 (strip sec) = l # ls \<and> question_text q = strip l \<and>
            correct_lines ls \<noteq> [] \<and>
            after_colon (strip (last (correct_lines ls))) = Some v \<and>
            upper U (strip v) = c # rest \<and> correct_answer q = JStr [c])"
proof -
  obtain l ls where sp: "split_on 10 (strip sec) = l # ls"
    using assms by (cases "split_on 10 (strip sec)") (simp_all add: parse_mc_section_def)
  obtain opts corr expl where
    run: "parse_lines (mc_line U) ls ([], None, []) = Some (opts, corr, expl)"
    using assms sp
    by (cases "parse_lines (mc_line U) ls ([], None, [])")
      (auto simp add: parse_mc_section_def Let_def)
  obtain letter where corr: "corr = Some letter"
    using assms sp run by (cases corr) (simp_all add: parse_mc_section_def Let_def)
  have ok: "strip l \<noteq> [] \<and> length opts = 4 \<and> letter \<noteq> []"
    using assms sp run corr by (simp add: parse_mc_section_def Let_def split: if_splits)
  then have q: "q = \<lparr>qtype = multiple_choice, question_text = strip l, options = opts,
                     correct_answer = JStr letter, sample_answer = JNull, key_points = None,
                     explanation = JStr expl\<rparr>"
    using assms sp run corr by (simp add: parse_mc_section_def Let_def)
  have "mc_inv ([], None, [])" by (simp add: mc_inv_def)
  with run have inv: "mc_inv (opts, corr, expl)"
    by (rule parse_lines_inv) (rule mc_line_inv)
  then have d: "distinct (map fst opts)"
    and sub: "fst ` set opts \<subseteq> {[65], [66], [67], [68]}"
    by (simp_all add: mc_inv_def)
  have "card (fst ` set opts) = length (map fst opts)"
    using d distinct_card [of "map fst opts"] by simp
  then have "card (fst ` set opts) = card {[65], [66], [67], [68::nat]}"
    using ok by simp
  with sub have "fst ` set opts = {[65], [66], [67], [68]}"
    by (intro card_subset_eq) simp_all
  then have keys: "fst ` set opts = {py ''A'', py ''B'', py ''C'', py ''D''}"
    by (simp add: py_def)
  have ne: "correct_lines ls \<noteq> []"
    using parse_lines_correct [OF run] corr by (cases "correct_lines ls = []") simp_all
  then obtain v c rest where v: "after_colon (strip (last (correct_lines ls))) = Some v"
    "upper U (strip v) = c # rest" "letter = [c]"
    using parse_lines_correct [OF run] corr by auto
  have "\<exists>l ls v c rest.
            split_on 10 (strip sec) = l # ls \<and> question_text q = strip l \<and>
            correct_lines ls \<noteq> [] \<and>
            after_colon (strip (last (correct_lines ls))) = Some v \<and>
            upper U (strip v) = c # rest \<and> correct_answer q = JStr [c]"
    using sp ne v q by (intro exI [of _ l] exI [of _ ls] exI [of _ v] exI [of _ c] exI [of _ rest]) simp
  then show ?thesis
    using q ok keys by simp
qed

lemmas parser_eval =
  lines_def parse_multiple_choice_def parse_true_false_def parse_short_answer_def
  re_split_def match_marker_def py_def List.map_filter_def
  parse_mc_section_def parse_tf_section_def parse_sa_section_def
  strip_def is_space_def mc_line_def tf_line_def sa_line_def option_letter_def
  startswith_def after_colon_def upper_def ascii_def upper_cp_def Let_def


lemma example_mc_answer_text_parsed:
  "parse_multiple_choice U example_mc_answer_text =
     [\<lparr>qtype = multiple_choice,
       question_text = py ''Which organelle produces most of the energy of a cell?'',
       options = [(py ''A'', py ''Nucleus''), (py ''B'', py ''Mitochondrion''),
                  (py ''C'', py ''Ribosome''), (py ''D'', py ''Golgi apparatus'')],
       correct_answer = JStr (py ''M''),
       sample_answer = JNull,
       key_points = None,
       explanation = JStr []\<rparr>]"
  by (simp add: example_mc_answer_text_def parser_eval)


text \<open>
  Claim C7, as stated: the correct letter of every parsed multiple-choice question is a
  key of its options. It fails: the parser takes the first character after \<open>CORRECT:\<close>,
  upper-cased, whatever it is. For a block whose \<open>CORRECT:\<close> line holds the text of the
  answer, \<open>Mitochondrion\<close>, the question is accepted with the correct answer \<open>M\<close>.
\<close>

theorem parsed_correct_letter_counterexample:
  "parse_multiple_choice example_unicode example_mc_answer_text \<noteq> [] \<and>
   \<not> list_all correct_letter_in_options (parse_multiple_choice example_unicode example_mc_answer_text)"
  unfolding example_mc_answer_text_parsed
  by (simp add: correct_letter_in_options_def py_def)


text \<open>
  Claim C7, amended. Every multiple-choice question that the parser returns comes from a
  segment of the text after the first marker; its question text is the first line of that
  segment, stripped, and is not empty; it has exactly 4 options, whose letters are \<open>A\<close>,
  \<open>B\<close>, \<open>C\<close> and \<open>D\<close>; and its correct answer is one character: the first character of
  the upper-cased, stripped text that follows the first colon of the last \<open>CORRECT:\<close> line
  of the segment. Nothing compares that character with the option letters.
\<close>

theorem parsed_multiple_choice_shape:
  assumes "q \<in> set (parse_multiple_choice U text)"
  shows "qtype q = multiple_choice \<and> question_text q \<noteq> [] \<and> length (options q) = 4 \<and>
         fst ` set (options q) = {py ''A'', py ''B'', py ''C'', py ''D''} \<and>
         (\<exists>sec l ls v c rest.
            sec \<in> set (tl (re_split text)) \<and>
            split_on 10 (strip sec) = l # ls \<and> question_text q = strip l \<and>
            correct_lines ls \<noteq> [] \<and>
            after_colon (strip (last (correct_lines ls))) = Some v \<and>
            upper U (strip v) = c # rest \<and> correct_answer q = JStr [c])"
proof -
  from assms obtain sec where sec: "sec \<in> set (tl (re_split text))"
    and p: "parse_mc_section U sec = Some q"
    by (auto simp add: parse_multiple_choice_def List.map_filter_def)
  note all = parse_mc_section_shape [OF p]
  have shape: "qtype q = multiple_choice \<and> question_text q \<noteq> [] \<and>
      length (options q) = 4 \<and>
      fst ` set (options q) = {py ''A'', py ''B'', py ''C'', py ''D''}"
    using all by (simp only: simp_thms)
  have "\<exists>l ls v c rest.
            split_on 10 (strip sec) = l # ls \<and> question_text q = strip l \<and>
            correct_lines ls \<noteq> [] \<and>
            after_colon (strip (last (correct_lines ls))) = Some v \<and>
            upper U (strip v) = c # rest \<and> correct_answer q = JStr [c]"
    using all by (elim conjE)
  then obtain l ls v c rest where
    line: "split_on 10 (strip sec) = l # ls" "question_text q = strip l"
      "correct_lines ls \<noteq> []"
      "after_colon (strip (last (correct_lines ls))) = Some v"
      "upper U (strip v) = c # rest" "correct_answer q = JStr [c]"
    by (elim exE conjE)
  have "\<exists>sec l ls v c rest.
            sec \<in> set (tl (re_split text)) \<and>
            split_on 10 (strip sec) = l # ls \<and> question_text q = strip l \<and>
            correct_lines ls \<noteq> [] \<and>
            after_colon (strip (last (correct_lines ls))) = Some v \<and>
            upper U (strip v) = c # rest \<and> correct_answer q = JStr [c]"
    using sec line by (intro exI conjI)
  with shape show ?thesis by (simp only: simp_thms)
qed

theorem parsed_multiple_choice_shape_witness:
  "hd (parse_multiple_choice example_unicode example_mc_answer_text)
     \<in> set (parse_multiple_choice example_unicode example_mc_answer_text) \<and>
   qtype (hd (parse_multiple_choice example_unicode example_mc_answer_text)) = multiple_choice \<and>
   length (options (hd (parse_multiple_choice example_unicode example_mc_answer_text))) = 4 \<and>
   correct_answer (hd (parse_multiple_choice example_unicode example_mc_answer_text)) =
     JStr (py ''M'')"
proof -
  let ?q = "hd (parse_multiple_choice example_unicode example_mc_answer_text)"
  have m: "?q \<in> set (parse_multiple_choice example_unicode example_mc_answer_text)"
    by (simp add: example_mc_answer_text_parsed)
  have c: "correct_answer ?q = JStr (py ''M'')"
    by (simp add: example_mc_answer_text_parsed)
  note shape = parsed_multiple_choice_shape [OF m]
  have t: "qtype ?q = multiple_choice" using shape by (elim conjE)
  have n: "length (options ?q) = 4" using shape by (elim conjE)
  from m t n c show ?thesis by (intro conjI)
qed

section \<open>The first block of a response\<close>

lemma mc_block_at_start: "parse_multiple_choice U example_mc_block = []"
  by (simp add: example_mc_block_def parser_eval)

lemma mc_block_after_newline: "length (parse_multiple_choice U (10 # example_mc_block)) = 1"
  by (simp add: example_mc_block_def parser_eval)

lemma tf_block_at_start: "parse_true_false U example_tf_block = []"
  by (simp add: example_tf_block_def parser_eval)

lemma tf_block_after_newline: "length (parse_true_false U (10 # example_tf_block)) = 1"
  by (simp add: example_tf_block_def parser_eval)

lemma sa_block_at_start: "parse_short_answer example_sa_block = []"
  by (simp add: example_sa_block_def parser_eval)

lemma sa_block_after_newline: "length (parse_short_answer (10 # example_sa_block)) = 1"
  by (simp add: example_sa_block_def parser_eval)


text \<open>
  Claim C8. The parsers split the text where a newline, optional whitespace and \<open>Q:\<close>
  follow each other, and drop the first segment. A well-formed block that starts the
  text, with no newline before its \<open>Q:\<close>, is therefore in the segment that is dropped:
  each of the three parsers returns no question for such a block, and one question for
  the same block after a newline.
\<close>

theorem parser_drops_block_at_start_of_text:
  "parse_multiple_choice example_unicode example_mc_block = [] \<and>
   length (parse_multiple_choice example_unicode (10 # example_mc_block)) = 1 \<and>
   parse_true_false example_unicode example_tf_block = [] \<and>
   length (parse_true_false example_unicode (10 # example_tf_block)) = 1 \<and>
   parse_short_answer example_sa_block = [] \<and>
   length (parse_short_answer (10 # example_sa_block)) = 1"
  using mc_block_at_start mc_block_after_newline tf_block_at_start tf_block_after_newline
    sa_block_at_start sa_block_after_newline
  by simp

section \<open>Rounding to double precision\<close>




















section \<open>The thresholds of 30% and 20%\<close>




section \<open>The aggregate percentage\<close>














section \<open>The two paths of a short answer\<close>



lemma digits_nonempty: "digits n \<noteq> []"
  by (subst digits.simps) simp























end
